theory Spec2Isabelle
  imports Main "HOL-Library.AList" "HOL-Library.List_Lexorder" "HOL-Library.Char_ord"
begin

section \<open>Severities\<close>

text \<open>
  \<^verbatim>\<open>type LogLevel int\<close> with the constants \<^verbatim>\<open>DEBUG .. FATAL\<close> numbered by
  \<^verbatim>\<open>iota\<close>. The type is an integer type: \<^verbatim>\<open>SetLevel\<close> accepts any value of it,
  also one above \<^verbatim>\<open>FATAL\<close>.
\<close>

type_synonym LogLevel = int

definition DEBUG :: LogLevel where "DEBUG = 0"
definition INFO :: LogLevel where "INFO = 1"
definition WARNING :: LogLevel where "WARNING = 2"
definition ERROR :: LogLevel where "ERROR = 3"
definition FATAL :: LogLevel where "FATAL = 4"

section \<open>The writer and its environment\<close>

text \<open>
  The struct \<^verbatim>\<open>Logger\<close>. Each of the five \<^verbatim>\<open>*log.Logger\<close> fields is built by
  \<^verbatim>\<open>log.New(os.Stdout, prefix, log.Ltime)\<close>; the three arguments are the same for all
  but the prefix, so the field holds the prefix. \<^verbatim>\<open>logFile\<close> is a file handle or nil.
  The mutex \<^verbatim>\<open>mu\<close> has no counterpart: calls are modelled one after the other.
\<close>

record Logger =
  infoLogger :: string
  errorLogger :: string
  debugLogger :: string
  warningLogger :: string
  fatalLogger :: string
  logFile :: "nat option"
  level :: LogLevel
  timeFormat :: string
  withCaller :: bool
  jsonMode :: bool

text \<open>
  What lies outside the program and is only read by it. \<open>now t layout\<close> is
  \<^verbatim>\<open>time.Now().Format(layout)\<close> at the \<open>t\<close>-th reading of the clock; \<open>Caller\<close> is
  what \<^verbatim>\<open>runtime.Caller(2)\<close> gives at the call site (file and line, or nothing when it
  reports not ok); \<open>Base\<close> is \<^verbatim>\<open>filepath.Base\<close>, \<open>Sprintf\<close> is \<^verbatim>\<open>fmt.Sprintf\<close> on a
  template and its arguments, \<open>Getenv\<close> is \<^verbatim>\<open>os.Getenv\<close>; \<open>can_open\<close> says whether
  \<^verbatim>\<open>os.OpenFile\<close> succeeds on a path, and \<open>close_fails\<close> whether the operating system
  reports an error when the handle is closed.
\<close>

record 'v runtime =
  now :: "nat \<Rightarrow> string \<Rightarrow> string"
  Caller :: "(string \<times> int) option"
  Base :: "string \<Rightarrow> string"
  Sprintf :: "string \<Rightarrow> 'v list \<Rightarrow> string"
  Getenv :: "string \<Rightarrow> string"
  can_open :: "string \<Rightarrow> bool"
  close_fails :: "nat \<Rightarrow> bool"

text \<open>
  What the program changes outside the struct: the bytes written to standard output, the
  contents of the files, the table of file handles (handle \<open>h\<close> is entry \<open>h\<close>: the path
  it was opened on and whether it is still open), the process-wide flag
  \<^verbatim>\<open>color.NoColor\<close>, and how often the clock was read and the call stack inspected.
\<close>

record world =
  stdout :: string
  files :: "string \<rightharpoonup> string"
  handles :: "(string \<times> bool) list"
  NoColor :: bool
  clock_reads :: nat
  caller_lookups :: nat

datatype error = PathError string | ErrClosed | CloseError

datatype outcome = Returned | Exited int | Panicked

section \<open>Library functions the writer calls\<close>

definition nl :: char where "nl = CHR 0x0A"
definition dq :: char where "dq = CHR 0x22"
definition bsl :: char where "bsl = CHR 0x5C"
definition ESC :: char where "ESC = CHR 0x1B"

subsection \<open>Files\<close>

definition is_open :: "world \<Rightarrow> nat \<Rightarrow> bool" where
  "is_open w h = (h < length (handles w) \<and> snd (handles w ! h))"

text \<open>
  \<^verbatim>\<open>os.OpenFile(path, os.O_APPEND|os.O_CREATE|os.O_WRONLY, 0666)\<close>: on success the file
  exists afterwards (empty when it was absent) and a fresh handle is returned.
\<close>

definition OpenFile :: "'v runtime \<Rightarrow> string \<Rightarrow> world \<Rightarrow> (error + nat) \<times> world" where
  "OpenFile rt path w =
     (if can_open rt path
      then (Inr (length (handles w)),
            w\<lparr>files := (files w)(path \<mapsto> (case files w path of None \<Rightarrow> [] | Some c \<Rightarrow> c)),
              handles := handles w @ [(path, True)]\<rparr>)
      else (Inl (PathError path), w))"

text \<open>
  \<^verbatim>\<open>(*os.File).Close\<close>: a handle that is not open gives an error and nothing happens; an
  open handle is closed whether or not the operating system reports an error.
\<close>

definition file_Close :: "'v runtime \<Rightarrow> nat \<Rightarrow> world \<Rightarrow> error option \<times> world" where
  "file_Close rt h w =
     (if is_open w h
      then (if close_fails rt h then Some CloseError else None,
            w\<lparr>handles := (handles w)[h := (fst (handles w ! h), False)]\<rparr>)
      else (Some ErrClosed, w))"

text \<open>
  \<^verbatim>\<open>(*os.File).Write\<close> on a handle opened with \<^verbatim>\<open>O_APPEND\<close>: the bytes go to the end of
  the file; a handle that is not open gives an error and writes nothing.
\<close>

definition file_Write :: "nat \<Rightarrow> string \<Rightarrow> world \<Rightarrow> error option \<times> world" where
  "file_Write h bytes w =
     (if is_open w h
      then (None,
            w\<lparr>files := (files w)(fst (handles w ! h) \<mapsto>
                 (case files w (fst (handles w ! h)) of None \<Rightarrow> [] | Some c \<Rightarrow> c) @ bytes)\<rparr>)
      else (Some ErrClosed, w))"

subsection \<open>Console\<close>

text \<open>
  \<^verbatim>\<open>(*log.Logger).Println(msg)\<close> of a logger made with flag \<^verbatim>\<open>log.Ltime\<close> on standard
  output: the prefix, the time of day and a space, the message, and the newline that
  \<^verbatim>\<open>Println\<close> adds. The clock is read once.
\<close>

definition Println :: "'v runtime \<Rightarrow> string \<Rightarrow> string \<Rightarrow> world \<Rightarrow> world" where
  "Println rt prefix msg w =
     w\<lparr>stdout := stdout w @ prefix @ now rt (clock_reads w) ''15:04:05'' @ '' '' @ msg @ [nl],
       clock_reads := Suc (clock_reads w)\<rparr>"

subsection \<open>Decimal numbers, colours\<close>

fun utoa :: "nat \<Rightarrow> string" where
  "utoa n = (if n < 10 then [''0123456789'' ! n]
             else utoa (n div 10) @ [''0123456789'' ! (n mod 10)])"

declare utoa.simps [simp del]

definition itoa :: "int \<Rightarrow> string" where
  "itoa i = (if i < 0 then ''-'' @ utoa (nat (- i)) else utoa (nat i))"

text \<open>
  \<^verbatim>\<open>color.CyanString\<close> and its siblings of \<^verbatim>\<open>github.com/fatih/color\<close>: the text
  unchanged when \<^verbatim>\<open>color.NoColor\<close> is set, else between the escape sequence of the
  colour and the reset sequence.
\<close>

definition colorString :: "bool \<Rightarrow> nat \<Rightarrow> string \<Rightarrow> string" where
  "colorString nocolor attr s =
     (if nocolor then s else [ESC] @ ''['' @ utoa attr @ ''m'' @ s @ [ESC] @ ''[0m'')"

definition CyanString :: "bool \<Rightarrow> string \<Rightarrow> string" where "CyanString nc = colorString nc 36"
definition RedString :: "bool \<Rightarrow> string \<Rightarrow> string" where "RedString nc = colorString nc 31"
definition GreenString :: "bool \<Rightarrow> string \<Rightarrow> string" where "GreenString nc = colorString nc 32"
definition YellowString :: "bool \<Rightarrow> string \<Rightarrow> string" where "YellowString nc = colorString nc 33"
definition MagentaString :: "bool \<Rightarrow> string \<Rightarrow> string" where "MagentaString nc = colorString nc 35"

subsection \<open>String slices\<close>

text \<open>\<^verbatim>\<open>s[lo:hi]\<close>; Go panics unless \<^verbatim>\<open>0 <= lo <= hi <= len(s)\<close>.\<close>

definition go_slice :: "string \<Rightarrow> int \<Rightarrow> int \<Rightarrow> string option" where
  "go_slice s lo hi =
     (if 0 \<le> lo \<and> lo \<le> hi \<and> hi \<le> int (length s)
      then Some (take (nat hi - nat lo) (drop (nat lo) s)) else None)"

subsection \<open>JSON\<close>

text \<open>
  The string encoder of \<^verbatim>\<open>encoding/json\<close> (\<^verbatim>\<open>appendString\<close>). A byte below 0x80 is
  copied when it is in the safe set (printable, neither the double quote nor the
  backslash; with HTML escaping on, none of \<^verbatim>\<open><\<close>, \<^verbatim>\<open>>\<close>, \<^verbatim>\<open>&\<close> either) and escaped
  otherwise. From a byte of 0x80 and above a UTF-8 sequence is decoded: an invalid one
  becomes the escape of U+FFFD and one byte is consumed, U+2028 and U+2029 are escaped, every other
  sequence is copied. The short escapes for backspace and form feed are those of Go 1.22
  and later; earlier releases write them with \<^verbatim>\<open>\u00\<close> and two hexadecimal digits.
\<close>

definition hex :: "nat \<Rightarrow> char" where
  "hex n = ''0123456789abcdef'' ! n"

definition safeSet :: "char \<Rightarrow> bool" where
  "safeSet c = (0x20 \<le> (of_char c :: nat) \<and> (of_char c :: nat) < 0x80 \<and> c \<noteq> dq \<and> c \<noteq> bsl)"

definition htmlSafeSet :: "char \<Rightarrow> bool" where
  "htmlSafeSet c = (safeSet c \<and> c \<noteq> CHR ''<'' \<and> c \<noteq> CHR ''>'' \<and> c \<noteq> CHR ''&'')"

definition escape_byte :: "char \<Rightarrow> string" where
  "escape_byte c =
     (if c = bsl \<or> c = dq then [bsl, c]
      else if c = CHR 0x08 then [bsl, CHR ''b'']
      else if c = CHR 0x0C then [bsl, CHR ''f'']
      else if c = CHR 0x0A then [bsl, CHR ''n'']
      else if c = CHR 0x0D then [bsl, CHR ''r'']
      else if c = CHR 0x09 then [bsl, CHR ''t'']
      else [bsl] @ ''u00'' @ [hex ((of_char c :: nat) div 16), hex ((of_char c :: nat) mod 16)])"

definition RuneError :: nat where "RuneError = 0xFFFD"

text \<open>
  The table \<^verbatim>\<open>first\<close> with \<^verbatim>\<open>acceptRanges\<close> of \<^verbatim>\<open>unicode/utf8\<close>: for a leading byte,
  the length of its sequence and the range allowed for the second byte.
\<close>

definition acceptRange :: "nat \<Rightarrow> (nat \<times> nat \<times> nat) option" where
  "acceptRange s0 =
     (if 0xC2 \<le> s0 \<and> s0 \<le> 0xDF then Some (2, 0x80, 0xBF)
      else if s0 = 0xE0 then Some (3, 0xA0, 0xBF)
      else if (0xE1 \<le> s0 \<and> s0 \<le> 0xEC) \<or> s0 = 0xEE \<or> s0 = 0xEF then Some (3, 0x80, 0xBF)
      else if s0 = 0xED then Some (3, 0x80, 0x9F)
      else if s0 = 0xF0 then Some (4, 0x90, 0xBF)
      else if 0xF1 \<le> s0 \<and> s0 \<le> 0xF3 then Some (4, 0x80, 0xBF)
      else if s0 = 0xF4 then Some (4, 0x80, 0x8F)
      else None)"

definition DecodeRuneInString :: "string \<Rightarrow> nat \<times> nat" where
  "DecodeRuneInString s =
     (case s of
        [] \<Rightarrow> (RuneError, 0)
      | c0 # _ \<Rightarrow>
          (let s0 = (of_char c0 :: nat) in
           if s0 < 0x80 then (s0, 1)
           else (case acceptRange s0 of
             None \<Rightarrow> (RuneError, 1)
           | Some (sz, lo, hi) \<Rightarrow>
               if length s < sz then (RuneError, 1)
               else (let s1 = (of_char (s ! 1) :: nat) in
                 if s1 < lo \<or> hi < s1 then (RuneError, 1)
                 else if sz \<le> 2 then ((s0 mod 32) * 64 + s1 mod 64, 2)
                 else (let s2 = (of_char (s ! 2) :: nat) in
                   if s2 < 0x80 \<or> 0xBF < s2 then (RuneError, 1)
                   else if sz \<le> 3 then ((s0 mod 16) * 4096 + (s1 mod 64) * 64 + s2 mod 64, 3)
                   else (let s3 = (of_char (s ! 3) :: nat) in
                     if s3 < 0x80 \<or> 0xBF < s3 then (RuneError, 1)
                     else ((s0 mod 8) * 262144 + (s1 mod 64) * 4096 + (s2 mod 64) * 64
                             + s3 mod 64, 4)))))))"

text \<open>
  The loop of \<^verbatim>\<open>appendString\<close> between the two quotes. After a sequence of \<open>width\<close>
  bytes starting at \<open>b\<close> the loop goes on behind it, that is, \<open>width - 1\<close> bytes into
  the rest.
\<close>

function json_chars :: "bool \<Rightarrow> string \<Rightarrow> string" where
  "json_chars escapeHTML [] = []"
| "json_chars escapeHTML (b # bs) =
     (if (of_char b :: nat) < 0x80
      then (if htmlSafeSet b \<or> (\<not> escapeHTML \<and> safeSet b) then [b] else escape_byte b)
             @ json_chars escapeHTML bs
      else (case DecodeRuneInString (take 4 (b # bs)) of
        (c, width) \<Rightarrow>
          if c = RuneError \<and> width = 1
          then [bsl] @ ''ufffd'' @ json_chars escapeHTML bs
          else if c = 0x2028 \<or> c = 0x2029
          then [bsl] @ ''u202'' @ [hex (c mod 16)] @ json_chars escapeHTML (drop (width - 1) bs)
          else b # take (width - 1) bs @ json_chars escapeHTML (drop (width - 1) bs)))"
  by pat_completeness auto
termination
  by (relation "measure (\<lambda>(e, s). length s)") auto

definition appendString :: "bool \<Rightarrow> string \<Rightarrow> string" where
  "appendString escapeHTML s = [dq] @ json_chars escapeHTML s @ [dq]"

fun join :: "string \<Rightarrow> string list \<Rightarrow> string" where
  "join sep [] = []"
| "join sep [x] = x"
| "join sep (x # y # ys) = x @ sep @ join sep (y # ys)"

text \<open>
  \<^verbatim>\<open>(*json.Encoder).Encode\<close> of a \<^verbatim>\<open>map[string]any\<close> whose values are strings: the
  members in the order of their keys, then a newline, in one write. The map is an
  association list with one entry for each key.
\<close>

definition Encode :: "bool \<Rightarrow> (string \<times> string) list \<Rightarrow> string" where
  "Encode escapeHTML entry =
     ''{'' @ join '','' (map (\<lambda>(k, v). appendString escapeHTML k @ '':'' @ appendString escapeHTML v)
                          (sort_key fst entry)) @ ''}'' @ [nl]"

section \<open>The writer's operations\<close>

definition NewLogger :: "'v runtime \<Rightarrow> string \<Rightarrow> world \<Rightarrow> (error + Logger) \<times> world" where
  "NewLogger rt logFilePath w =
     (case OpenFile rt logFilePath w of
        (Inl err, w1) \<Rightarrow> (Inl err, w1)
      | (Inr f, w1) \<Rightarrow>
          (let w2 = (if Getenv rt ''FORCE_COLOR'' \<noteq> [] then w1\<lparr>NoColor := False\<rparr>
                     else if Getenv rt ''NO_COLOR'' \<noteq> [] then w1\<lparr>NoColor := True\<rparr>
                     else w1)
           in (Inr \<lparr>infoLogger = CyanString (NoColor w2) ''[INFO] '',
                     errorLogger = RedString (NoColor w2) ''[ERROR] '',
                     debugLogger = GreenString (NoColor w2) ''[DEBUG] '',
                     warningLogger = YellowString (NoColor w2) ''[WARNING] '',
                     fatalLogger = MagentaString (NoColor w2) ''[FATAL] '',
                     logFile = Some f,
                     level = DEBUG,
                     timeFormat = ''2006-01-02 15:04:05'',
                     withCaller = False,
                     jsonMode = False\<rparr>, w2)))"

text \<open>The first \<^verbatim>\<open>switch\<close> of \<^verbatim>\<open>log\<close>: the console line. No case for another level.\<close>

definition console :: "'v runtime \<Rightarrow> Logger \<Rightarrow> LogLevel \<Rightarrow> string \<Rightarrow> world \<Rightarrow> world" where
  "console rt l lv msg w =
     (if lv = DEBUG then Println rt (debugLogger l) msg w
      else if lv = INFO then Println rt (infoLogger l) msg w
      else if lv = WARNING then Println rt (warningLogger l) msg w
      else if lv = ERROR then Println rt (errorLogger l) msg w
      else if lv = FATAL then Println rt (fatalLogger l) msg w
      else w)"

text \<open>The second \<^verbatim>\<open>switch\<close>: \<^verbatim>\<open>levelStr\<close>, the empty string for another level.\<close>

definition levelStr :: "LogLevel \<Rightarrow> string" where
  "levelStr lv =
     (if lv = DEBUG then ''[DEBUG] ''
      else if lv = INFO then ''[INFO] ''
      else if lv = WARNING then ''[WARNING] ''
      else if lv = ERROR then ''[ERROR] ''
      else if lv = FATAL then ''[FATAL] ''
      else [])"

text \<open>
  \<^verbatim>\<open>log\<close>. The struct is only read. The result of the write to the file is dropped,
  as the source drops it.
\<close>

definition log :: "'v runtime \<Rightarrow> Logger \<Rightarrow> LogLevel \<Rightarrow> string \<Rightarrow> world \<Rightarrow> outcome \<times> world" where
  "log rt l lv msg w =
     (if lv < level l then (Returned, w)
      else
        (let w1 = console rt l lv msg w in
         case logFile l of
           None \<Rightarrow> (Returned, w1)
         | Some f \<Rightarrow>
             (let caller = (if withCaller l
                            then (case Caller rt of
                                    Some (file, line) \<Rightarrow> Base rt file @ '':'' @ itoa line
                                  | None \<Rightarrow> [])
                            else []);
                  w2 = (if withCaller l then w1\<lparr>caller_lookups := Suc (caller_lookups w1)\<rparr> else w1);
                  nowStr = now rt (clock_reads w2) (timeFormat l);
                  w3 = w2\<lparr>clock_reads := Suc (clock_reads w2)\<rparr>
              in if jsonMode l
                 then (case go_slice (levelStr lv) 1 (int (length (levelStr lv)) - 2) of
                         None \<Rightarrow> (Panicked, w3)
                       | Some name \<Rightarrow>
                           (let entry = [(''time'', nowStr), (''level'', name), (''msg'', msg)];
                                entry' = (if caller \<noteq> [] then AList.update ''caller'' caller entry
                                          else entry)
                            in (Returned, snd (file_Write f (Encode False entry') w3))))
                 else (let line = nowStr @ '' '' @ levelStr lv @ msg;
                           line' = (if caller \<noteq> [] then line @ '' ('' @ caller @ '')'' else line)
                       in (Returned, snd (file_Write f (line' @ [nl]) w3))))))"

text \<open>
  The five emission methods. Each gives how the call ends, the struct and the world
  after it.
\<close>

definition Debug :: "'v runtime \<Rightarrow> string \<Rightarrow> 'v list \<Rightarrow> Logger \<Rightarrow> world \<Rightarrow> outcome \<times> Logger \<times> world" where
  "Debug rt msg v l w =
     (if level l > DEBUG then (Returned, l, w)
      else (let fullMsg = (if length v > 0 then Sprintf rt msg v else msg)
            in case log rt l DEBUG fullMsg w of (out, w') \<Rightarrow> (out, l, w')))"

definition Info :: "'v runtime \<Rightarrow> string \<Rightarrow> 'v list \<Rightarrow> Logger \<Rightarrow> world \<Rightarrow> outcome \<times> Logger \<times> world" where
  "Info rt msg v l w =
     (if level l > INFO then (Returned, l, w)
      else (let fullMsg = (if length v > 0 then Sprintf rt msg v else msg)
            in case log rt l INFO fullMsg w of (out, w') \<Rightarrow> (out, l, w')))"

definition Warning :: "'v runtime \<Rightarrow> string \<Rightarrow> 'v list \<Rightarrow> Logger \<Rightarrow> world \<Rightarrow> outcome \<times> Logger \<times> world" where
  "Warning rt msg v l w =
     (if level l > WARNING then (Returned, l, w)
      else (let fullMsg = (if length v > 0 then Sprintf rt msg v else msg)
            in case log rt l WARNING fullMsg w of (out, w') \<Rightarrow> (out, l, w')))"

definition Error :: "'v runtime \<Rightarrow> string \<Rightarrow> 'v list \<Rightarrow> Logger \<Rightarrow> world \<Rightarrow> outcome \<times> Logger \<times> world" where
  "Error rt msg v l w =
     (if level l > ERROR then (Returned, l, w)
      else (let fullMsg = (if length v > 0 then Sprintf rt msg v else msg)
            in case log rt l ERROR fullMsg w of (out, w') \<Rightarrow> (out, l, w')))"

text \<open>\<^verbatim>\<open>Fatal\<close>: \<^verbatim>\<open>os.Exit(1)\<close> once \<^verbatim>\<open>log\<close> has returned.\<close>

definition Fatal :: "'v runtime \<Rightarrow> string \<Rightarrow> 'v list \<Rightarrow> Logger \<Rightarrow> world \<Rightarrow> outcome \<times> Logger \<times> world" where
  "Fatal rt msg v l w =
     (if level l > FATAL then (Returned, l, w)
      else (let fullMsg = (if length v > 0 then Sprintf rt msg v else msg)
            in case log rt l FATAL fullMsg w of
                 (Returned, w') \<Rightarrow> (Exited 1, l, w')
               | (out, w') \<Rightarrow> (out, l, w')))"

definition Close :: "'v runtime \<Rightarrow> Logger \<Rightarrow> world \<Rightarrow> error option \<times> Logger \<times> world" where
  "Close rt l w =
     (case logFile l of
        None \<Rightarrow> (None, l, w)
      | Some f \<Rightarrow> (case file_Close rt f w of (err, w') \<Rightarrow> (err, l, w')))"

definition SetLevel :: "LogLevel \<Rightarrow> Logger \<Rightarrow> Logger" where
  "SetLevel lv l = l\<lparr>level := lv\<rparr>"

definition WithColors :: "bool \<Rightarrow> world \<Rightarrow> world" where
  "WithColors enable w = w\<lparr>NoColor := \<not> enable\<rparr>"

definition WithTimeFormat :: "string \<Rightarrow> Logger \<Rightarrow> Logger" where
  "WithTimeFormat layout l = (if layout \<noteq> [] then l\<lparr>timeFormat := layout\<rparr> else l)"

definition WithCaller :: "bool \<Rightarrow> Logger \<Rightarrow> Logger" where
  "WithCaller enable l = l\<lparr>withCaller := enable\<rparr>"

definition WithJSON :: "Logger \<Rightarrow> Logger" where
  "WithJSON l = l\<lparr>jsonMode := True\<rparr>"

definition DisableFile :: "'v runtime \<Rightarrow> Logger \<Rightarrow> world \<Rightarrow> Logger \<times> world" where
  "DisableFile rt l w =
     (case logFile l of
        None \<Rightarrow> (l, w)
      | Some f \<Rightarrow> (l\<lparr>logFile := None\<rparr>, snd (file_Close rt f w)))"

definition EnableFile :: "'v runtime \<Rightarrow> string \<Rightarrow> Logger \<Rightarrow> world \<Rightarrow> error option \<times> Logger \<times> world" where
  "EnableFile rt path l w =
     (let w1 = (case logFile l of None \<Rightarrow> w | Some f \<Rightarrow> snd (file_Close rt f w))
      in case OpenFile rt path w1 of
           (Inl err, w2) \<Rightarrow> (Some err, l, w2)
         | (Inr f, w2) \<Rightarrow> (None, l\<lparr>logFile := Some f\<rparr>, w2))"

section \<open>Clients\<close>

text \<open>
  A client of the writer makes calls one after the other. \<open>call\<close> names the public
  methods with their arguments; \<open>step\<close> makes one call and gives the struct and the
  world after it, dropping the \<^verbatim>\<open>error\<close> that \<^verbatim>\<open>EnableFile\<close> and \<^verbatim>\<open>Close\<close> return; \<open>run\<close>
  makes a list of calls, each with the environment it meets, and stops when the process
  ends.
\<close>

datatype 'v call =
    CallDebug string "'v list"
  | CallInfo string "'v list"
  | CallWarning string "'v list"
  | CallError string "'v list"
  | CallFatal string "'v list"
  | CallSetLevel LogLevel
  | CallWithColors bool
  | CallWithTimeFormat string
  | CallWithCaller bool
  | CallWithJSON
  | CallDisableFile
  | CallEnableFile string
  | CallClose

fun step :: "'v runtime \<Rightarrow> 'v call \<Rightarrow> Logger \<Rightarrow> world \<Rightarrow> outcome \<times> Logger \<times> world" where
  "step rt (CallDebug msg v) l w = Debug rt msg v l w"
| "step rt (CallInfo msg v) l w = Info rt msg v l w"
| "step rt (CallWarning msg v) l w = Warning rt msg v l w"
| "step rt (CallError msg v) l w = Error rt msg v l w"
| "step rt (CallFatal msg v) l w = Fatal rt msg v l w"
| "step rt (CallSetLevel lv) l w = (Returned, SetLevel lv l, w)"
| "step rt (CallWithColors enable) l w = (Returned, l, WithColors enable w)"
| "step rt (CallWithTimeFormat layout) l w = (Returned, WithTimeFormat layout l, w)"
| "step rt (CallWithCaller enable) l w = (Returned, WithCaller enable l, w)"
| "step rt CallWithJSON l w = (Returned, WithJSON l, w)"
| "step rt CallDisableFile l w = (case DisableFile rt l w of (l', w') \<Rightarrow> (Returned, l', w'))"
| "step rt (CallEnableFile path) l w =
     (case EnableFile rt path l w of (err, l', w') \<Rightarrow> (Returned, l', w'))"
| "step rt CallClose l w = (case Close rt l w of (err, l', w') \<Rightarrow> (Returned, l', w'))"

fun run :: "('v runtime \<times> 'v call) list \<Rightarrow> Logger \<Rightarrow> world \<Rightarrow> outcome \<times> Logger \<times> world" where
  "run [] l w = (Returned, l, w)"
| "run ((rt, c) # cs) l w =
     (case step rt c l w of
        (Returned, l', w') \<Rightarrow> run cs l' w'
      | (out, l', w') \<Rightarrow> (out, l', w'))"

fun is_EnableFile :: "'v call \<Rightarrow> bool" where
  "is_EnableFile (CallEnableFile path) = True"
| "is_EnableFile c = False"

fun is_Close :: "'v call \<Rightarrow> bool" where
  "is_Close CallClose = True"
| "is_Close c = False"

text \<open>
  The emission method that belongs to a severity, so that a property of all five
  methods is stated once.
\<close>

definition emit ::
  "LogLevel \<Rightarrow> 'v runtime \<Rightarrow> string \<Rightarrow> 'v list \<Rightarrow> Logger \<Rightarrow> world \<Rightarrow> outcome \<times> Logger \<times> world" where
  "emit S =
     (if S = DEBUG then Debug else if S = INFO then Info else if S = WARNING then Warning
      else if S = ERROR then Error else Fatal)"

definition severity :: "LogLevel \<Rightarrow> bool" where
  "severity S = (S = DEBUG \<or> S = INFO \<or> S = WARNING \<or> S = ERROR \<or> S = FATAL)"

text \<open>The console logger of a severity (its prefix), as the first \<^verbatim>\<open>switch\<close> picks it.\<close>

definition consoleLogger :: "Logger \<Rightarrow> LogLevel \<Rightarrow> string" where
  "consoleLogger l S =
     (if S = DEBUG then debugLogger l else if S = INFO then infoLogger l
      else if S = WARNING then warningLogger l else if S = ERROR then errorLogger l
      else fatalLogger l)"

text \<open>
  The names of the severities as the specification gives them, to compare with what
  the source cuts out of \<open>levelStr\<close>.
\<close>

definition severityName :: "LogLevel \<Rightarrow> string" where
  "severityName S =
     (if S = DEBUG then ''DEBUG'' else if S = INFO then ''INFO''
      else if S = WARNING then ''WARNING'' else if S = ERROR then ''ERROR'' else ''FATAL'')"

text \<open>
  The message a method hands to \<^verbatim>\<open>log\<close>, and the caller string of a call (empty when
  caller reporting is off or the stack inspection fails).
\<close>

definition fullMsg :: "'v runtime \<Rightarrow> string \<Rightarrow> 'v list \<Rightarrow> string" where
  "fullMsg rt msg v = (if length v > 0 then Sprintf rt msg v else msg)"

definition callerOf :: "'v runtime \<Rightarrow> Logger \<Rightarrow> string" where
  "callerOf rt l =
     (if withCaller l
      then (case Caller rt of Some (file, line) \<Rightarrow> Base rt file @ '':'' @ itoa line | None \<Rightarrow> [])
      else [])"

text \<open>
  The state of the file sink that the specification asks for: the field is nil, or it
  holds a handle that is open.
\<close>

definition sink_ok :: "Logger \<Rightarrow> world \<Rightarrow> bool" where
  "sink_ok l w = (case logFile l of None \<Rightarrow> True | Some f \<Rightarrow> is_open w f)"

text \<open>The content of a file, empty when the file does not exist.\<close>

definition content :: "world \<Rightarrow> string \<Rightarrow> string" where
  "content w path = (case files w path of None \<Rightarrow> [] | Some c \<Rightarrow> c)"

text \<open>
  The two formats of a file record as the specification words them, without the line
  terminator: the time, a space, the severity between brackets, a space, the message
  and, when caller reporting is on and the stack inspection succeeds, a space and the
  caller between parentheses; and the object with the members \<^verbatim>\<open>time\<close>, \<^verbatim>\<open>level\<close>,
  \<^verbatim>\<open>msg\<close> and, under the same condition, \<^verbatim>\<open>caller\<close>.
\<close>

definition quoted :: "string \<Rightarrow> string" where
  "quoted s = [dq] @ s @ [dq]"


definition jsonRecord :: "'v runtime \<Rightarrow> Logger \<Rightarrow> LogLevel \<Rightarrow> string \<Rightarrow> string \<Rightarrow> string" where
  "jsonRecord rt l S nowStr m =
     ''{'' @
     (if withCaller l \<and> Caller rt \<noteq> None
      then quoted ''caller'' @ '':'' @ appendString False (callerOf rt l) @ '','' else []) @
     quoted ''level'' @ '':'' @ quoted (severityName S) @ '','' @
     quoted ''msg'' @ '':'' @ appendString False m @ '','' @
     quoted ''time'' @ '':'' @ appendString False nowStr @ ''}''"

subsection \<open>A concrete writer\<close>

text \<open>
  An environment in which every path but one can be opened, the struct that
  \<^verbatim>\<open>NewLogger("app.log")\<close> returns with colours off, and the world after that call.
\<close>

definition rt0 :: "string runtime" where
  "rt0 = \<lparr>now = (\<lambda>t layout. ''12:00:0'' @ utoa t),
          Caller = Some (''/src/app/main.go'', 12),
          Base = (\<lambda>p. ''main.go''),
          Sprintf = (\<lambda>f v. ''formatted''),
          Getenv = (\<lambda>name. []),
          can_open = (\<lambda>p. p \<noteq> ''/nope/x.log''),
          close_fails = (\<lambda>h. False)\<rparr>"

definition l0 :: Logger where
  "l0 = \<lparr>infoLogger = ''[INFO] '', errorLogger = ''[ERROR] '', debugLogger = ''[DEBUG] '',
          warningLogger = ''[WARNING] '', fatalLogger = ''[FATAL] '', logFile = Some 0,
          level = DEBUG, timeFormat = ''2006-01-02 15:04:05'', withCaller = False,
          jsonMode = False\<rparr>"

definition w0 :: world where
  "w0 = \<lparr>stdout = [], files = [''app.log'' \<mapsto> []], handles = [(''app.log'', True)],
          NoColor = True, clock_reads = 0, caller_lookups = 0\<rparr>"

text \<open>
  The world before that call, and a client that logs, reconfigures, closes and ends the
  process, never calling \<^verbatim>\<open>EnableFile\<close>.
\<close>

definition w_init :: world where
  "w_init = \<lparr>stdout = [], files = Map.empty, handles = [], NoColor = True, clock_reads = 0,
             caller_lookups = 0\<rparr>"

definition cs0 :: "(string runtime \<times> string call) list" where
  "cs0 = [(rt0, CallInfo ''started'' []), (rt0, CallWithJSON), (rt0, CallWithCaller True),
          (rt0, CallError ''code %d'' [''7'']), (rt0, CallClose), (rt0, CallFatal ''bye'' [])]"

section \<open>Auxiliary facts\<close>

lemmas level_defs = DEBUG_def INFO_def WARNING_def ERROR_def FATAL_def

subsection \<open>The methods in terms of \<open>log\<close>\<close>

lemma log_filtered: "lv < level l \<Longrightarrow> log rt l lv msg w = (Returned, w)"
  by (simp add: log_def)

lemma console_eq:
  "severity S \<Longrightarrow> console rt l S m w = Println rt (consoleLogger l S) m w"
  by (auto simp: severity_def console_def consoleLogger_def level_defs)

lemma slice_levelStr:
  "severity S \<Longrightarrow> go_slice (levelStr S) 1 (int (length (levelStr S)) - 2) = Some (severityName S)"
  by (auto simp: severity_def levelStr_def severityName_def go_slice_def level_defs)


lemma log_Returned:
  "severity S \<Longrightarrow> fst (log rt l S m w) = Returned"
  by (simp add: log_def Let_def slice_levelStr split: option.splits)

lemma severity_simps [simp]:
  "severity DEBUG" "severity INFO" "severity WARNING" "severity ERROR" "severity FATAL"
  by (simp_all add: severity_def)

lemma Debug_log:
  "level l \<le> DEBUG \<Longrightarrow>
   Debug rt msg v l w = (Returned, l, snd (log rt l DEBUG (fullMsg rt msg v) w))"
  using log_Returned [of DEBUG rt l "fullMsg rt msg v" w]
  by (cases "log rt l DEBUG (fullMsg rt msg v) w") (simp add: Debug_def fullMsg_def)

lemma Info_log:
  "level l \<le> INFO \<Longrightarrow>
   Info rt msg v l w = (Returned, l, snd (log rt l INFO (fullMsg rt msg v) w))"
  using log_Returned [of INFO rt l "fullMsg rt msg v" w]
  by (cases "log rt l INFO (fullMsg rt msg v) w") (simp add: Info_def fullMsg_def)

lemma Warning_log:
  "level l \<le> WARNING \<Longrightarrow>
   Warning rt msg v l w = (Returned, l, snd (log rt l WARNING (fullMsg rt msg v) w))"
  using log_Returned [of WARNING rt l "fullMsg rt msg v" w]
  by (cases "log rt l WARNING (fullMsg rt msg v) w") (simp add: Warning_def fullMsg_def)

lemma Error_log:
  "level l \<le> ERROR \<Longrightarrow>
   Error rt msg v l w = (Returned, l, snd (log rt l ERROR (fullMsg rt msg v) w))"
  using log_Returned [of ERROR rt l "fullMsg rt msg v" w]
  by (cases "log rt l ERROR (fullMsg rt msg v) w") (simp add: Error_def fullMsg_def)

lemma Fatal_log:
  "level l \<le> FATAL \<Longrightarrow>
   Fatal rt msg v l w = (Exited 1, l, snd (log rt l FATAL (fullMsg rt msg v) w))"
  using log_Returned [of FATAL rt l "fullMsg rt msg v" w]
  by (cases "log rt l FATAL (fullMsg rt msg v) w") (simp add: Fatal_def fullMsg_def)

lemma emit_log:
  "severity S \<Longrightarrow> level l \<le> S \<Longrightarrow>
   emit S rt msg v l w =
     (if S = FATAL then Exited 1 else Returned, l, snd (log rt l S (fullMsg rt msg v) w))"
  unfolding severity_def emit_def
  by (elim disjE)
     (simp_all add: Debug_log Info_log Warning_log Error_log Fatal_log, simp_all add: level_defs)

lemma callerOf_nonempty:
  "callerOf rt l \<noteq> [] \<longleftrightarrow> withCaller l \<and> Caller rt \<noteq> None"
  by (auto simp: callerOf_def split: option.splits)

lemma Println_fields [simp]:
  "stdout (Println rt p m w) = stdout w @ p @ now rt (clock_reads w) ''15:04:05'' @ '' '' @ m @ [nl]"
  "files (Println rt p m w) = files w"
  "handles (Println rt p m w) = handles w"
  "NoColor (Println rt p m w) = NoColor w"
  "clock_reads (Println rt p m w) = Suc (clock_reads w)"
  "caller_lookups (Println rt p m w) = caller_lookups w"
  by (simp_all add: Println_def)

lemma file_Write_fields [simp]:
  "stdout (snd (file_Write f bytes w)) = stdout w"
  "handles (snd (file_Write f bytes w)) = handles w"
  "NoColor (snd (file_Write f bytes w)) = NoColor w"
  "clock_reads (snd (file_Write f bytes w)) = clock_reads w"
  "caller_lookups (snd (file_Write f bytes w)) = caller_lookups w"
  by (simp_all add: file_Write_def)

lemma file_Write_files:
  "files (snd (file_Write f bytes w)) =
     (if is_open w f then (files w)(fst (handles w ! f) \<mapsto> content w (fst (handles w ! f)) @ bytes)
      else files w)"
  by (simp add: file_Write_def content_def)

text \<open>The bytes that a call appends to the file, in the two modes.\<close>

lemma log_stdout:
  "severity S \<Longrightarrow> level l \<le> S \<Longrightarrow>
   stdout (snd (log rt l S m w)) =
     stdout w @ consoleLogger l S @ now rt (clock_reads w) ''15:04:05'' @ '' '' @ m @ [nl]"
  by (simp add: log_def Let_def console_eq slice_levelStr split: option.splits)

lemma log_files_none:
  "logFile l = None \<Longrightarrow> files (snd (log rt l S m w)) = files w"
  by (auto simp: log_def Let_def console_def split: option.splits)



subsection \<open>The encoder\<close>

lemma acceptRange_Some:
  "acceptRange s0 = Some (sz, lo, hi) \<Longrightarrow> (sz = 2 \<or> sz = 3 \<or> sz = 4) \<and> 0x80 \<le> lo"
  by (auto simp: acceptRange_def split: if_splits)

lemma decode_valid:
  assumes "DecodeRuneInString (take 4 (b # bs)) = (c, width)"
    and "\<not> (c = RuneError \<and> width = 1)"
    and "0x80 \<le> (of_char b :: nat)"
  shows "2 \<le> width \<and> width - 1 \<le> length bs \<and>
         (\<forall>x \<in> set (take (width - 1) bs). 0x80 \<le> (of_char x :: nat))"
proof (cases "acceptRange (of_char b)")
  case None
  with assms show ?thesis by (simp add: DecodeRuneInString_def)
next
  case (Some t)
  obtain sz lo hi where t: "t = (sz, lo, hi)" by (cases t)
  from Some t acceptRange_Some have sz: "sz = 2 \<or> sz = 3 \<or> sz = 4" and lo: "0x80 \<le> lo"
    by blast+
  show ?thesis
  proof (cases bs)
    case Nil
    with assms Some t sz show ?thesis by (auto simp: DecodeRuneInString_def)
  next
    case (Cons x xs)
    note bs1 = this
    show ?thesis
    proof (cases xs)
      case Nil
      with assms Some t sz lo bs1 show ?thesis
        by (auto simp: DecodeRuneInString_def Let_def split: if_splits)
    next
      case (Cons y ys)
      note bs2 = this
      show ?thesis
      proof (cases ys)
        case Nil
        with assms Some t sz lo bs1 bs2 show ?thesis
          by (auto simp: DecodeRuneInString_def Let_def split: if_splits)
      next
        case (Cons z zs)
        with assms Some t sz lo bs1 bs2 show ?thesis
          by (auto simp: DecodeRuneInString_def Let_def split: if_splits)
      qed
    qed
  qed
qed


lemma hex_digit: "n < 16 \<Longrightarrow> hex n \<in> set ''0123456789abcdef''"
  unfolding hex_def by (rule nth_mem) simp

lemma hex_not_nl: "n < 16 \<Longrightarrow> hex n \<noteq> nl"
  using hex_digit [of n] by (auto simp: nl_def)

lemma escape_byte_no_nl: "nl \<notin> set (escape_byte c)"
proof -
  have "(of_char c :: nat) < 256" by simp
  then have "(of_char c :: nat) div 16 < 16" by arith
  then have h1: "hex ((of_char c :: nat) div 16) \<noteq> nl" by (rule hex_not_nl)
  have h2: "hex ((of_char c :: nat) mod 16) \<noteq> nl" by (rule hex_not_nl) simp
  from h1 h2 show ?thesis
    by (simp add: escape_byte_def) (simp add: nl_def bsl_def dq_def)
qed

lemma safe_not_nl: "safeSet c \<Longrightarrow> c \<noteq> nl"
  by (auto simp: safeSet_def nl_def)

lemma high_not_nl: "0x80 \<le> (of_char c :: nat) \<Longrightarrow> c \<noteq> nl"
  by (auto simp: nl_def)

lemma json_chars_no_nl: "nl \<notin> set (json_chars e s)"
proof (induction e s rule: json_chars.induct)
  case (1 e)
  show ?case by simp
next
  case (2 e b bs)
  show ?case
  proof (cases "(of_char b :: nat) < 0x80")
    case True
    with 2 show ?thesis
      by (auto simp: htmlSafeSet_def escape_byte_no_nl dest: safe_not_nl)
  next
    case False
    obtain c width where d: "DecodeRuneInString (take 4 (b # bs)) = (c, width)"
      by (cases "DecodeRuneInString (take 4 (b # bs))")
    show ?thesis
    proof (cases "c = RuneError \<and> width = 1")
      case True
      with False d 2 show ?thesis by (auto simp: nl_def bsl_def)
    next
      case inv: False
      from decode_valid [OF d inv] False
      have hi: "\<forall>x \<in> set (take (width - 1) bs). x \<noteq> nl"
        by (auto dest: high_not_nl)
      from False have b: "b \<noteq> nl" by (auto simp: nl_def)
      have h: "hex (c mod 16) \<noteq> nl" by (rule hex_not_nl) simp
      from False d inv 2 hi b h show ?thesis
        by (auto simp: nl_def bsl_def)
    qed
  qed
qed

lemma appendString_no_nl: "nl \<notin> set (appendString e s)"
  by (simp add: appendString_def json_chars_no_nl) (simp add: nl_def dq_def)

lemma decode_before_ascii:
  assumes c: "(of_char a :: nat) < 0x80" and b: "0x80 \<le> (of_char b :: nat)"
  shows "DecodeRuneInString (take 4 (b # bs @ a # ys)) = DecodeRuneInString (take 4 (b # bs))"
proof (cases "acceptRange (of_char b)")
  case None
  with b show ?thesis by (simp add: DecodeRuneInString_def Let_def)
next
  case (Some t)
  obtain sz lo hi where t: "t = (sz, lo, hi)" by (cases t)
  from Some t acceptRange_Some have sz: "sz = 2 \<or> sz = 3 \<or> sz = 4" and lo: "0x80 \<le> lo"
    by blast+
  show ?thesis
  proof (cases bs)
    case Nil
    with c b Some t sz lo show ?thesis by (auto simp: DecodeRuneInString_def Let_def)
  next
    case (Cons x xs)
    note bs1 = this
    show ?thesis
    proof (cases xs)
      case Nil
      with c b Some t sz lo bs1 show ?thesis
        by (auto simp: DecodeRuneInString_def Let_def)
    next
      case (Cons y zs)
      note bs2 = this
      show ?thesis
      proof (cases zs)
        case Nil
        with c b Some t sz lo bs1 bs2 show ?thesis
          by (auto simp: DecodeRuneInString_def Let_def)
      next
        case (Cons z zs')
        with c b Some t sz lo bs1 bs2 show ?thesis
          by (auto simp: DecodeRuneInString_def Let_def)
      qed
    qed
  qed
qed

lemma json_chars_before_ascii:
  assumes a: "(of_char a :: nat) < 0x80"
  shows "json_chars e (xs @ a # ys) = json_chars e xs @ json_chars e (a # ys)"
proof -
  define R where "R = (\<lambda>e. json_chars e (a # ys))"
  have "json_chars e (xs @ a # ys) = json_chars e xs @ R e"
  proof (induction e xs rule: json_chars.induct)
    case (1 e)
    show ?case by (simp add: R_def)
  next
    case (2 e b bs)
    show ?case
    proof (cases "(of_char b :: nat) < 0x80")
      case True
      with 2 show ?thesis by simp
    next
      case False
      then have hb: "0x80 \<le> (of_char b :: nat)" by simp
      obtain c width where d: "DecodeRuneInString (take 4 (b # bs)) = (c, width)"
        by (cases "DecodeRuneInString (take 4 (b # bs))")
      have d': "DecodeRuneInString (take 4 (b # bs @ a # ys)) = (c, width)"
        using decode_before_ascii [OF a hb] d by simp
      show ?thesis
      proof (cases "c = RuneError \<and> width = 1")
        case True
        have "json_chars e (bs @ a # ys) = json_chars e bs @ R e"
          using 2(2) [OF False d [symmetric] True] .
        with False d d' True show ?thesis by simp
      next
        case inv: False
        from decode_valid [OF d inv hb] have len: "width - 1 \<le> length bs" by simp
        have ih: "json_chars e (drop (width - 1) bs @ a # ys) =
                  json_chars e (drop (width - 1) bs) @ R e"
          using 2(3) [OF False d [symmetric] inv] 2(4) [OF False d [symmetric] inv]
          by (cases "c = 0x2028 \<or> c = 0x2029") auto
        from False d d' inv len ih show ?thesis by (auto simp: RuneError_def)
      qed
    qed
  qed
  then show ?thesis by (simp add: R_def)
qed

lemma json_chars_keeps_markup:
  assumes "a = CHR ''<'' \<or> a = CHR ''>'' \<or> a = CHR ''&''"
  shows "json_chars False (xs @ a # ys) = json_chars False xs @ a # json_chars False ys"
proof -
  from assms have "(of_char a :: nat) < 0x80" and "safeSet a"
    by (auto simp: safeSet_def dq_def bsl_def)
  then show ?thesis
    by (simp add: json_chars_before_ascii)
qed

lemma appendString_keys:
  "appendString e ''time'' = quoted ''time''"
  "appendString e ''level'' = quoted ''level''"
  "appendString e ''msg'' = quoted ''msg''"
  "appendString e ''caller'' = quoted ''caller''"
  by (simp_all add: appendString_def quoted_def htmlSafeSet_def safeSet_def dq_def bsl_def)

lemma appendString_severityName:
  "appendString e (severityName S) = quoted (severityName S)"
  by (simp add: severityName_def appendString_def quoted_def htmlSafeSet_def safeSet_def
      dq_def bsl_def)

lemma Encode_without_caller:
  "Encode e [(''time'', t), (''level'', n), (''msg'', m)] =
     ''{'' @ quoted ''level'' @ '':'' @ appendString e n @ '','' @
     quoted ''msg'' @ '':'' @ appendString e m @ '','' @
     quoted ''time'' @ '':'' @ appendString e t @ ''}'' @ [nl]"
  by (simp add: Encode_def appendString_keys)

lemma Encode_with_caller:
  "Encode e (AList.update ''caller'' c [(''time'', t), (''level'', n), (''msg'', m)]) =
     ''{'' @ quoted ''caller'' @ '':'' @ appendString e c @ '','' @
     quoted ''level'' @ '':'' @ appendString e n @ '','' @
     quoted ''msg'' @ '':'' @ appendString e m @ '','' @
     quoted ''time'' @ '':'' @ appendString e t @ ''}'' @ [nl]"
  by (simp add: Encode_def appendString_keys)

lemma log_files_json:
  "severity S \<Longrightarrow> level l \<le> S \<Longrightarrow> logFile l = Some f \<Longrightarrow> is_open w f \<Longrightarrow> jsonMode l \<Longrightarrow>
   files (snd (log rt l S m w)) =
     (files w)(fst (handles w ! f) \<mapsto> content w (fst (handles w ! f)) @
        jsonRecord rt l S (now rt (Suc (clock_reads w)) (timeFormat l)) m @ [nl])"
  apply (simp add: log_def Let_def console_eq slice_levelStr file_Write_files is_open_def
      content_def del: AList.update.simps)
  apply (simp add: Encode_with_caller Encode_without_caller jsonRecord_def
      appendString_severityName callerOf_nonempty [symmetric] del: AList.update.simps)
  apply (simp add: callerOf_def split: option.splits)
  done

lemma jsonRecord_one_line: "nl \<notin> set (jsonRecord rt l S t m)"
  by (simp add: jsonRecord_def appendString_no_nl quoted_def severityName_def)
     (simp add: nl_def dq_def)

subsection \<open>Files, sinks and sequences of calls\<close>

lemma file_Close_fields [simp]:
  "stdout (snd (file_Close rt f w)) = stdout w"
  "files (snd (file_Close rt f w)) = files w"
  "NoColor (snd (file_Close rt f w)) = NoColor w"
  "clock_reads (snd (file_Close rt f w)) = clock_reads w"
  "caller_lookups (snd (file_Close rt f w)) = caller_lookups w"
  "length (handles (snd (file_Close rt f w))) = length (handles w)"
  by (simp_all add: file_Close_def)

lemma file_Close_closed: "\<not> is_open (snd (file_Close rt f w)) f"
  by (auto simp: file_Close_def is_open_def)

lemma file_Close_result:
  "fst (file_Close rt f w) =
     (if is_open w f then (if close_fails rt f then Some CloseError else None) else Some ErrClosed)"
  by (simp add: file_Close_def)

lemma file_Close_not_open: "\<not> is_open w f \<Longrightarrow> file_Close rt f w = (Some ErrClosed, w)"
  by (simp add: file_Close_def)

text \<open>What each method does to the struct and to the world, whatever the threshold.\<close>

lemma Debug_world:
  "snd (snd (Debug rt msg v l w)) = snd (log rt l DEBUG (fullMsg rt msg v) w)"
  by (cases "level l \<le> DEBUG") (simp_all add: Debug_log, simp add: Debug_def log_filtered)

lemma Info_world:
  "snd (snd (Info rt msg v l w)) = snd (log rt l INFO (fullMsg rt msg v) w)"
  by (cases "level l \<le> INFO") (simp_all add: Info_log, simp add: Info_def log_filtered)

lemma Warning_world:
  "snd (snd (Warning rt msg v l w)) = snd (log rt l WARNING (fullMsg rt msg v) w)"
  by (cases "level l \<le> WARNING") (simp_all add: Warning_log, simp add: Warning_def log_filtered)

lemma Error_world:
  "snd (snd (Error rt msg v l w)) = snd (log rt l ERROR (fullMsg rt msg v) w)"
  by (cases "level l \<le> ERROR") (simp_all add: Error_log, simp add: Error_def log_filtered)

lemma Fatal_world:
  "snd (snd (Fatal rt msg v l w)) = snd (log rt l FATAL (fullMsg rt msg v) w)"
  by (cases "level l \<le> FATAL") (simp_all add: Fatal_log, simp add: Fatal_def log_filtered)

lemma Debug_struct: "fst (snd (Debug rt msg v l w)) = l"
  by (cases "level l \<le> DEBUG") (simp_all add: Debug_log, simp add: Debug_def)

lemma Info_struct: "fst (snd (Info rt msg v l w)) = l"
  by (cases "level l \<le> INFO") (simp_all add: Info_log, simp add: Info_def)

lemma Warning_struct: "fst (snd (Warning rt msg v l w)) = l"
  by (cases "level l \<le> WARNING") (simp_all add: Warning_log, simp add: Warning_def)

lemma Error_struct: "fst (snd (Error rt msg v l w)) = l"
  by (cases "level l \<le> ERROR") (simp_all add: Error_log, simp add: Error_def)

lemma Fatal_struct: "fst (snd (Fatal rt msg v l w)) = l"
  by (cases "level l \<le> FATAL") (simp_all add: Fatal_log, simp add: Fatal_def)

lemmas method_world = Debug_world Info_world Warning_world Error_world Fatal_world
lemmas method_struct = Debug_struct Info_struct Warning_struct Error_struct Fatal_struct

lemma console_fields [simp]:
  "files (console rt l S m w) = files w"
  "handles (console rt l S m w) = handles w"
  "NoColor (console rt l S m w) = NoColor w"
  "caller_lookups (console rt l S m w) = caller_lookups w"
  by (simp_all add: console_def)

lemma console_sink [simp]: "console rt (l\<lparr>logFile := x\<rparr>) S m w = console rt l S m w"
  by (simp add: console_def)

lemma console_stdout_world:
  "stdout w' = stdout w \<Longrightarrow> clock_reads w' = clock_reads w \<Longrightarrow>
   stdout (console rt l S m w') = stdout (console rt l S m w)"
  by (simp add: console_def Println_def)

lemma log_handles: "handles (snd (log rt l S m w)) = handles w"
  by (simp add: log_def Let_def split: option.splits)

lemma log_files_closed:
  assumes "logFile l = Some f" and "\<not> is_open w f"
  shows "files (snd (log rt l S m w)) = files w"
proof -
  have "\<And>w' b. handles w' = handles w \<Longrightarrow> files (snd (file_Write f b w')) = files w'"
    using assms(2) by (auto simp: file_Write_def is_open_def)
  with assms(1) show ?thesis
    by (simp add: log_def Let_def split: option.splits)
qed

lemma log_stdout_console:
  "stdout (snd (log rt l S m w)) = (if S < level l then stdout w else stdout (console rt l S m w))"
  by (simp add: log_def Let_def split: option.splits)

lemma OpenFile_ok:
  "can_open rt path \<Longrightarrow>
   OpenFile rt path w =
     (Inr (length (handles w)),
      w\<lparr>files := (files w)(path \<mapsto> content w path), handles := handles w @ [(path, True)]\<rparr>)"
  by (simp add: OpenFile_def content_def)

lemma OpenFile_fails:
  "\<not> can_open rt path \<Longrightarrow> OpenFile rt path w = (Inl (PathError path), w)"
  by (simp add: OpenFile_def)

lemma DisableFile_None: "logFile l = None \<Longrightarrow> DisableFile rt l w = (l, w)"
  by (simp add: DisableFile_def)

lemma DisableFile_fields:
  "logFile (fst (DisableFile rt l w)) = None"
  "files (snd (DisableFile rt l w)) = files w"
  "stdout (snd (DisableFile rt l w)) = stdout w"
  "clock_reads (snd (DisableFile rt l w)) = clock_reads w"
  "fst (DisableFile rt l w) = l\<lparr>logFile := None\<rparr>"
  by (simp_all add: DisableFile_def split: option.splits)

text \<open>With no file sink, a call other than \<open>EnableFile\<close> leaves the files and the field alone.\<close>

lemma step_without_sink:
  assumes "logFile l = None" and "\<not> is_EnableFile c"
  shows "logFile (fst (snd (step rt c l w))) = None \<and> files (snd (snd (step rt c l w))) = files w"
  using assms
  by (cases c)
     (simp_all add: method_struct method_world log_files_none SetLevel_def WithColors_def
       WithTimeFormat_def WithCaller_def WithJSON_def DisableFile_def Close_def)

lemma run_without_sink:
  "logFile l = None \<Longrightarrow> list_all (\<lambda>(rt, c). \<not> is_EnableFile c) cs \<Longrightarrow>
   logFile (fst (snd (run cs l w))) = None \<and> files (snd (snd (run cs l w))) = files w"
proof (induction cs arbitrary: l w)
  case Nil
  then show ?case by simp
next
  case (Cons rc cs)
  obtain rt c where rc: "rc = (rt, c)" by (cases rc)
  obtain out l' w' where st: "step rt c l w = (out, l', w')" by (cases "step rt c l w")
  from Cons.prems rc have c: "\<not> is_EnableFile c" and cs: "list_all (\<lambda>(rt, c). \<not> is_EnableFile c) cs"
    by simp_all
  from step_without_sink [OF Cons.prems(1) c, of rt w] st
  have l': "logFile l' = None" and w': "files w' = files w" by simp_all
  show ?case
  proof (cases out)
    case Returned
    with rc st Cons.IH [OF l' cs, of w'] w' show ?thesis by simp
  next
    case (Exited n)
    with rc st l' w' show ?thesis by simp
  next
    case Panicked
    with rc st l' w' show ?thesis by simp
  qed
qed

text \<open>The invariant under one call.\<close>

lemma sink_ok_handles:
  "handles w' = handles w \<Longrightarrow> sink_ok l w' = sink_ok l w"
  by (simp add: sink_ok_def is_open_def split: option.splits)

lemma sink_ok_fields [simp]:
  "sink_ok (l\<lparr>level := a\<rparr>) w = sink_ok l w"
  "sink_ok (l\<lparr>timeFormat := b\<rparr>) w = sink_ok l w"
  "sink_ok (l\<lparr>withCaller := c\<rparr>) w = sink_ok l w"
  "sink_ok (l\<lparr>jsonMode := d\<rparr>) w = sink_ok l w"
  "sink_ok (l\<lparr>logFile := None\<rparr>) w"
  "sink_ok l (w\<lparr>NoColor := e\<rparr>) = sink_ok l w"
  by (simp_all add: sink_ok_def is_open_def split: option.splits)

lemma step_sink_ok:
  assumes "sink_ok l w" and "\<not> is_EnableFile c" and "\<not> is_Close c"
  shows "sink_ok (fst (snd (step rt c l w))) (snd (snd (step rt c l w)))"
  using assms
  by (cases c)
     (simp_all add: method_struct method_world sink_ok_handles [OF log_handles] SetLevel_def
       WithColors_def WithTimeFormat_def WithCaller_def WithJSON_def DisableFile_fields
       split: prod.splits)

lemma EnableFile_ok:
  "can_open rt path \<Longrightarrow>
   fst (EnableFile rt path l w) = None \<and>
   sink_ok (fst (snd (EnableFile rt path l w))) (snd (snd (EnableFile rt path l w)))"
  by (simp add: EnableFile_def Let_def OpenFile_ok sink_ok_def is_open_def nth_append
      split: option.splits)

lemma EnableFile_result:
  "fst (EnableFile rt path l w) = (if can_open rt path then None else Some (PathError path))"
  by (simp add: EnableFile_def Let_def OpenFile_ok OpenFile_fails)

lemma EnableFile_fails_without_sink:
  "\<not> can_open rt path \<Longrightarrow> logFile l = None \<Longrightarrow> EnableFile rt path l w = (Some (PathError path), l, w)"
  by (simp add: EnableFile_def Let_def OpenFile_fails)

lemma NewLogger_sink_ok:
  "NewLogger rt path w = (Inr l', w') \<Longrightarrow> sink_ok l' w'"
  by (cases "can_open rt path")
     (auto simp: NewLogger_def OpenFile_ok OpenFile_fails Let_def sink_ok_def is_open_def
       nth_append split: if_splits)

lemma emit_stdout_after_DisableFile:
  "stdout (snd (snd (emit S rt' msg v (fst (DisableFile rt l w)) (snd (DisableFile rt l w))))) =
   stdout (snd (snd (emit S rt' msg v l w)))"
  by (simp add: emit_def method_world log_stdout_console DisableFile_fields
      console_stdout_world [of "snd (DisableFile rt l w)" w])

lemma Close_None: "logFile l = None \<Longrightarrow> Close rt l w = (None, l, w)"
  by (simp add: Close_def)

lemma Close_Some:
  "logFile l = Some f \<Longrightarrow> Close rt l w = (fst (file_Close rt f w), l, snd (file_Close rt f w))"
  by (simp add: Close_def split: prod.splits)

subsection \<open>The concrete writer\<close>

lemma rt0_simps:
  "now rt0 0 layout = ''12:00:00''"
  "now rt0 (Suc 0) layout = ''12:00:01''"
  "now rt0 2 layout = ''12:00:02''"
  "now rt0 3 layout = ''12:00:03''"
  "Caller rt0 = Some (''/src/app/main.go'', 12)"
  "Base rt0 p = ''main.go''"
  "Sprintf rt0 t v = ''formatted''"
  "Getenv rt0 name = []"
  "can_open rt0 p = (p \<noteq> ''/nope/x.log'')"
  "close_fails rt0 h = False"
  by (simp_all add: rt0_def utoa.simps)

lemma l0_simps:
  "infoLogger l0 = ''[INFO] ''" "errorLogger l0 = ''[ERROR] ''" "debugLogger l0 = ''[DEBUG] ''"
  "warningLogger l0 = ''[WARNING] ''" "fatalLogger l0 = ''[FATAL] ''" "logFile l0 = Some 0"
  "level l0 = DEBUG" "timeFormat l0 = ''2006-01-02 15:04:05''" "withCaller l0 = False"
  "jsonMode l0 = False"
  by (simp_all add: l0_def)

lemma w0_simps:
  "stdout w0 = []" "files w0 = [''app.log'' \<mapsto> []]" "handles w0 = [(''app.log'', True)]"
  "NoColor w0 = True" "clock_reads w0 = 0" "caller_lookups w0 = 0"
  by (simp_all add: w0_def)

lemma w0_open: "is_open w0 0"
  by (simp add: is_open_def w0_simps)


lemma NewLogger_l0: "NewLogger rt0 ''app.log'' w_init = (Inr l0, w0)"
  by (simp add: NewLogger_def OpenFile_def rt0_simps w_init_def l0_def w0_def CyanString_def
      RedString_def GreenString_def YellowString_def MagentaString_def colorString_def)

section \<open>Properties\<close>

text \<open>
  C1: a call of the emission method of a severity below the threshold returns at once;
  the struct and the whole world are as before: nothing was written to standard output
  or to a file, the call stack was not inspected and the clock was not read.
\<close>

theorem filtered_call_is_silent:
  "(DEBUG < level l \<longrightarrow> Debug rt msg v l w = (Returned, l, w)) \<and>
   (INFO < level l \<longrightarrow> Info rt msg v l w = (Returned, l, w)) \<and>
   (WARNING < level l \<longrightarrow> Warning rt msg v l w = (Returned, l, w)) \<and>
   (ERROR < level l \<longrightarrow> Error rt msg v l w = (Returned, l, w)) \<and>
   (FATAL < level l \<longrightarrow> Fatal rt msg v l w = (Returned, l, w))"
  by (simp add: Debug_def Info_def Warning_def Error_def Fatal_def)

theorem filtered_call_witness:
  "Debug rt0 ''a %d'' [''x''] (SetLevel 5 l0) w0 = (Returned, SetLevel 5 l0, w0) \<and>
   Info rt0 ''a %d'' [''x''] (SetLevel 5 l0) w0 = (Returned, SetLevel 5 l0, w0) \<and>
   Warning rt0 ''a %d'' [''x''] (SetLevel 5 l0) w0 = (Returned, SetLevel 5 l0, w0) \<and>
   Error rt0 ''a %d'' [''x''] (SetLevel 5 l0) w0 = (Returned, SetLevel 5 l0, w0) \<and>
   Fatal rt0 ''a %d'' [''x''] (SetLevel 5 l0) w0 = (Returned, SetLevel 5 l0, w0)"
  using filtered_call_is_silent [of "SetLevel 5 l0" rt0 "''a %d''" "[''x'']" w0]
  by (simp add: SetLevel_def level_defs)

text \<open>
  C2: \<^verbatim>\<open>Fatal\<close> under a threshold above \<^verbatim>\<open>FATAL\<close> returns with the struct and the world
  as before, so it neither logs nor ends the process. At a threshold of \<^verbatim>\<open>FATAL\<close> or
  below it does all that \<^verbatim>\<open>log\<close> does for the rendered message, \<^verbatim>\<open>log\<close> returns, its
  console line is on standard output, and the process ends with status 1.
\<close>

theorem Fatal_filtered_or_exits:
  "(FATAL < level l \<longrightarrow> Fatal rt msg v l w = (Returned, l, w)) \<and>
   (level l \<le> FATAL \<longrightarrow>
      Fatal rt msg v l w = (Exited 1, l, snd (log rt l FATAL (fullMsg rt msg v) w)) \<and>
      fst (log rt l FATAL (fullMsg rt msg v) w) = Returned \<and>
      stdout (snd (snd (Fatal rt msg v l w))) =
        stdout w @ fatalLogger l @ now rt (clock_reads w) ''15:04:05'' @ '' '' @
        fullMsg rt msg v @ [nl])"
proof -
  have "level l \<le> FATAL \<Longrightarrow>
        stdout (snd (log rt l FATAL (fullMsg rt msg v) w)) =
          stdout w @ fatalLogger l @ now rt (clock_reads w) ''15:04:05'' @ '' '' @
          fullMsg rt msg v @ [nl]"
    using log_stdout [OF severity_simps(5), of l rt "fullMsg rt msg v" w]
    by (simp add: consoleLogger_def level_defs)
  then show ?thesis
    by (simp add: Fatal_log log_Returned) (simp add: Fatal_def)
qed

theorem Fatal_witness:
  "Fatal rt0 ''boom'' [] (SetLevel 5 l0) w0 = (Returned, SetLevel 5 l0, w0) \<and>
   fst (Fatal rt0 ''boom'' [] l0 w0) = Exited 1 \<and>
   stdout (snd (snd (Fatal rt0 ''boom'' [] l0 w0))) = ''[FATAL] 12:00:00 boom'' @ [nl]"
  using Fatal_filtered_or_exits [of "SetLevel 5 l0" rt0 "''boom''" "[]" w0]
    Fatal_filtered_or_exits [of l0 rt0 "''boom''" "[]" w0]
  by (simp add: SetLevel_def l0_simps level_defs, elim conjE)
     (simp add: SetLevel_def l0_simps w0_simps rt0_simps level_defs fullMsg_def)

text \<open>
  C3: \<^verbatim>\<open>EnableFile\<close> on a path that cannot be opened, called on the concrete writer, whose
  file sink is open. It returns the error, and the handle of the former sink is closed;
  but the field \<^verbatim>\<open>logFile\<close> still holds that handle. The next \<^verbatim>\<open>Info\<close> therefore passes
  the nil test of \<^verbatim>\<open>log\<close> and reads the clock a second time for a write that fails (no
  file changes), and a later \<^verbatim>\<open>Close\<close> reports that the file is closed already.
\<close>

theorem EnableFile_failure_keeps_closed_handle:
  "EnableFile rt0 ''/nope/x.log'' l0 w0 =
     (Some (PathError ''/nope/x.log''), l0, w0\<lparr>handles := [(''app.log'', False)]\<rparr>) \<and>
   logFile l0 = Some 0 \<and>
   \<not> is_open (w0\<lparr>handles := [(''app.log'', False)]\<rparr>) 0 \<and>
   clock_reads (snd (snd (Info rt0 ''x'' [] l0 (w0\<lparr>handles := [(''app.log'', False)]\<rparr>)))) = 2 \<and>
   files (snd (snd (Info rt0 ''x'' [] l0 (w0\<lparr>handles := [(''app.log'', False)]\<rparr>)))) = files w0 \<and>
   fst (Close rt0 l0 (w0\<lparr>handles := [(''app.log'', False)]\<rparr>)) = Some ErrClosed"
  by (simp add: EnableFile_def Let_def OpenFile_fails rt0_simps l0_simps file_Close_def w0_open
      w0_simps is_open_def Info_world log_def console_def Println_def fullMsg_def level_defs
      file_Write_def Close_def)

text \<open>
  C4, as the code has it: the file-sink field is nil or holds an open handle after
  \<^verbatim>\<open>NewLogger\<close> succeeds; every emission method, \<^verbatim>\<open>SetLevel\<close>, \<^verbatim>\<open>WithColors\<close>,
  \<^verbatim>\<open>WithTimeFormat\<close>, \<^verbatim>\<open>WithCaller\<close>, \<^verbatim>\<open>WithJSON\<close> and \<^verbatim>\<open>DisableFile\<close> keep it so; it is so
  after \<^verbatim>\<open>EnableFile\<close> whenever that returns no error, and also when no sink was present
  before; \<^verbatim>\<open>Close\<close> keeps it when no sink is present. \<^verbatim>\<open>Close\<close> on a present sink ends
  the life of the writer: the field still holds the handle, which is closed.
\<close>

theorem sink_invariant_until_Close:
  "(NewLogger rt path w = (Inr l', w') \<longrightarrow> sink_ok l' w') \<and>
   (sink_ok l w \<and> \<not> is_EnableFile c \<and> \<not> is_Close c \<longrightarrow>
      sink_ok (fst (snd (step rt c l w))) (snd (snd (step rt c l w)))) \<and>
   (fst (EnableFile rt path l w) = None \<longrightarrow>
      sink_ok (fst (snd (EnableFile rt path l w))) (snd (snd (EnableFile rt path l w)))) \<and>
   (logFile l = None \<longrightarrow>
      sink_ok (fst (snd (EnableFile rt path l w))) (snd (snd (EnableFile rt path l w))) \<and>
      sink_ok (fst (snd (Close rt l w))) (snd (snd (Close rt l w)))) \<and>
   (logFile l = Some f \<longrightarrow>
      logFile (fst (snd (Close rt l w))) = Some f \<and> \<not> is_open (snd (snd (Close rt l w))) f)"
proof -
  have a: "fst (EnableFile rt path l w) = None \<Longrightarrow>
      sink_ok (fst (snd (EnableFile rt path l w))) (snd (snd (EnableFile rt path l w)))"
    using EnableFile_ok [of rt path l w] by (simp add: EnableFile_result split: if_splits)
  have b: "logFile l = None \<Longrightarrow>
      sink_ok (fst (snd (EnableFile rt path l w))) (snd (snd (EnableFile rt path l w)))"
    using EnableFile_ok [of rt path l w] EnableFile_fails_without_sink [of rt path l w]
    by (cases "can_open rt path") (simp_all add: sink_ok_def)
  from a b show ?thesis
    by (simp add: NewLogger_sink_ok step_sink_ok Close_None Close_Some file_Close_closed)
       (simp add: sink_ok_def)
qed

theorem sink_invariant_witness:
  "NewLogger rt0 ''app.log'' w_init = (Inr l0, w0) \<and> sink_ok l0 w0 \<and>
   \<not> is_EnableFile (CallInfo ''x'' [] :: string call) \<and> \<not> is_Close (CallInfo ''x'' [] :: string call) \<and>
   sink_ok (fst (snd (step rt0 (CallInfo ''x'' []) l0 w0)))
           (snd (snd (step rt0 (CallInfo ''x'' []) l0 w0))) \<and>
   fst (EnableFile rt0 ''b.log'' l0 w0) = None \<and>
   sink_ok (fst (snd (EnableFile rt0 ''b.log'' l0 w0))) (snd (snd (EnableFile rt0 ''b.log'' l0 w0))) \<and>
   logFile (l0\<lparr>logFile := None\<rparr>) = None \<and>
   sink_ok (fst (snd (EnableFile rt0 ''/nope/x.log'' (l0\<lparr>logFile := None\<rparr>) w0)))
           (snd (snd (EnableFile rt0 ''/nope/x.log'' (l0\<lparr>logFile := None\<rparr>) w0))) \<and>
   logFile l0 = Some 0 \<and> \<not> is_open (snd (snd (Close rt0 l0 w0))) 0"
proof -
  have e: "fst (EnableFile rt0 ''b.log'' l0 w0) = None"
    by (simp add: EnableFile_result rt0_simps)
  from sink_invariant_until_Close [where rt = rt0 and path = "''app.log''" and w = w_init
      and l' = l0 and w' = w0]
    sink_invariant_until_Close [where rt = rt0 and path = "''b.log''" and w = w0 and l = l0
      and c = "CallInfo ''x'' []" and f = 0]
    sink_invariant_until_Close [where rt = rt0 and path = "''/nope/x.log''" and w = w0
      and l = "l0\<lparr>logFile := None\<rparr>"]
    e
  show ?thesis
    by (simp add: NewLogger_l0 l0_simps del: step.simps)
qed

text \<open>
  C4 as stated fails for \<^verbatim>\<open>Close\<close>: on the concrete writer, whose sink is open, it
  leaves the field holding a closed handle.
\<close>

theorem sink_invariant_counterexample:
  "sink_ok l0 w0 \<and> \<not> sink_ok (fst (snd (Close rt0 l0 w0))) (snd (snd (Close rt0 l0 w0)))"
  by (simp add: Close_Some [OF l0_simps(6)] sink_ok_def l0_simps w0_open file_Close_closed)

text \<open>
  C5, as the code has it: \<^verbatim>\<open>Close\<close> with no file sink returns no error and changes
  nothing. With a file sink it returns what closing the handle reports (an error when
  the operating system reports one, or when the handle is closed already), and
  afterwards the handle is closed in either case. It never changes the struct, so the
  field still holds the handle and a second \<^verbatim>\<open>Close\<close> reports an error. No file
  changes, neither by \<^verbatim>\<open>Close\<close> nor by an emission after it.
\<close>

theorem Close_closes_handle_keeps_field:
  "(logFile l = None \<longrightarrow> Close rt l w = (None, l, w)) \<and>
   (logFile l = Some f \<longrightarrow>
      fst (Close rt l w) =
        (if is_open w f then (if close_fails rt f then Some CloseError else None)
         else Some ErrClosed) \<and>
      \<not> is_open (snd (snd (Close rt l w))) f \<and>
      fst (Close rt' l (snd (snd (Close rt l w)))) = Some ErrClosed) \<and>
   fst (snd (Close rt l w)) = l \<and>
   files (snd (snd (Close rt l w))) = files w \<and>
   files (snd (snd (emit S rt' msg v l (snd (snd (Close rt l w)))))) = files w"
proof (cases "logFile l")
  case None
  then show ?thesis
    by (simp add: Close_None emit_def method_world log_files_none)
next
  case (Some g)
  have "files (snd (log rt' l S' m (snd (file_Close rt g w)))) = files w" for S' m
    using log_files_closed [OF Some file_Close_closed, of rt' S' m rt w] by simp
  with Some show ?thesis
    by (simp add: Close_Some file_Close_result file_Close_closed file_Close_not_open
        emit_def method_world)
qed

theorem Close_witness:
  "logFile (l0\<lparr>logFile := None\<rparr>) = None \<and>
   Close rt0 (l0\<lparr>logFile := None\<rparr>) w0 = (None, l0\<lparr>logFile := None\<rparr>, w0) \<and>
   logFile l0 = Some 0 \<and> fst (Close rt0 l0 w0) = None \<and>
   \<not> is_open (snd (snd (Close rt0 l0 w0))) 0 \<and>
   files (snd (snd (emit INFO rt0 ''late'' [] l0 (snd (snd (Close rt0 l0 w0)))))) =
     [''app.log'' \<mapsto> []]"
  using Close_closes_handle_keeps_field [of "l0\<lparr>logFile := None\<rparr>" rt0 w0 0 rt0 INFO "''late''" "[]"]
    Close_closes_handle_keeps_field [of l0 rt0 w0 0 rt0 INFO "''late''" "[]"]
  by (simp add: l0_simps w0_simps w0_open rt0_simps)

text \<open>
  C5 as stated fails in its last part: after \<^verbatim>\<open>Close\<close> on the concrete writer the field
  is not nil; it holds the closed handle, and \<^verbatim>\<open>Close\<close> called again does not return
  success.
\<close>

theorem Close_counterexample:
  "logFile (fst (snd (Close rt0 l0 w0))) = Some 0 \<and>
   \<not> is_open (snd (snd (Close rt0 l0 w0))) 0 \<and>
   fst (Close rt0 l0 (snd (snd (Close rt0 l0 w0)))) = Some ErrClosed"
  by (simp add: Close_Some [OF l0_simps(6)] l0_simps file_Close_closed file_Close_not_open)



text \<open>
  C7: a call at or above the threshold, with an open file sink and JSON mode on,
  appends to the sink's file exactly the object in the specification's format followed
  by one line terminator, for each of the five severities; the object holds the member
  \<^verbatim>\<open>caller\<close> exactly when caller reporting is on and the stack inspection succeeded, its
  \<^verbatim>\<open>level\<close> is the name of the severity without brackets, and it contains no line
  terminator, so the record is one line. Wherever \<^verbatim>\<open><\<close>, \<^verbatim>\<open>>\<close> or \<^verbatim>\<open>&\<close> stands in the
  message, the encoded message has the same character there, between the encodings of
  what precedes and what follows it.
\<close>

theorem json_record:
  assumes "severity S" and "level l \<le> S" and "logFile l = Some f" and "is_open w f"
    and "jsonMode l"
  shows "files (snd (snd (emit S rt msg v l w))) =
           (files w)(fst (handles w ! f) \<mapsto> content w (fst (handles w ! f)) @
              jsonRecord rt l S (now rt (Suc (clock_reads w)) (timeFormat l)) (fullMsg rt msg v) @
              [nl]) \<and>
         nl \<notin> set (jsonRecord rt l S (now rt (Suc (clock_reads w)) (timeFormat l))
                     (fullMsg rt msg v)) \<and>
         (\<forall>xs a ys. fullMsg rt msg v = xs @ a # ys \<and>
              (a = CHR ''<'' \<or> a = CHR ''>'' \<or> a = CHR ''&'') \<longrightarrow>
            appendString False (fullMsg rt msg v) =
              [dq] @ json_chars False xs @ a # json_chars False ys @ [dq])"
  using assms
  by (simp add: emit_log log_files_json jsonRecord_one_line)
     (auto simp: appendString_def json_chars_keeps_markup)

theorem json_record_witness:
  "severity ERROR \<and> level (WithJSON l0) \<le> ERROR \<and> logFile (WithJSON l0) = Some 0 \<and>
   is_open w0 0 \<and> jsonMode (WithJSON l0) \<and>
   files (snd (snd (emit ERROR rt0 ''a<b & c>d'' [] (WithJSON l0) w0))) ''app.log'' =
     Some (''{'' @ quoted ''level'' @ '':'' @ quoted ''ERROR'' @ '','' @
           quoted ''msg'' @ '':'' @ quoted ''a<b & c>d'' @ '','' @
           quoted ''time'' @ '':'' @ quoted ''12:00:01'' @ ''}'' @ [nl])"
proof -
  have h: "severity ERROR" "level (WithJSON l0) \<le> ERROR"
    "logFile (WithJSON l0) = Some 0" "is_open w0 0" "jsonMode (WithJSON l0)"
    by (simp_all add: WithJSON_def l0_simps w0_open) (simp add: level_defs)
  have q: "appendString False ''a<b & c>d'' = quoted ''a<b & c>d''"
    "appendString False ''12:00:01'' = quoted ''12:00:01''"
    by (simp_all add: appendString_def quoted_def htmlSafeSet_def safeSet_def dq_def bsl_def)
  from json_record [OF h, of rt0 "''a<b & c>d''" "[]"] h q show ?thesis
    by (simp add: jsonRecord_def content_def fullMsg_def severityName_def WithJSON_def
        l0_simps w0_simps rt0_simps level_defs)
qed

text \<open>
  C8: \<^verbatim>\<open>DisableFile\<close> called again after \<^verbatim>\<open>DisableFile\<close> gives the same struct and world,
  and with no file sink it changes nothing. After it, whatever calls a client makes
  and in whatever environments, as long as none is \<^verbatim>\<open>EnableFile\<close>, every file has the
  content it had before \<^verbatim>\<open>DisableFile\<close> and the field stays nil. An emission after it
  leaves on standard output exactly what the same emission leaves without it.
\<close>

theorem DisableFile_idempotent_and_silent:
  "DisableFile rt' (fst (DisableFile rt l w)) (snd (DisableFile rt l w)) = DisableFile rt l w \<and>
   (logFile l = None \<longrightarrow> DisableFile rt l w = (l, w)) \<and>
   (list_all (\<lambda>(r, c). \<not> is_EnableFile c) cs \<longrightarrow>
      files (snd (snd (run cs (fst (DisableFile rt l w)) (snd (DisableFile rt l w))))) = files w \<and>
      logFile (fst (snd (run cs (fst (DisableFile rt l w)) (snd (DisableFile rt l w))))) = None) \<and>
   stdout (snd (snd (emit S rt' msg v (fst (DisableFile rt l w)) (snd (DisableFile rt l w))))) =
     stdout (snd (snd (emit S rt' msg v l w)))"
proof -
  have a: "DisableFile rt' (fst (DisableFile rt l w)) (snd (DisableFile rt l w)) = DisableFile rt l w"
    using DisableFile_None [of "fst (DisableFile rt l w)" rt' "snd (DisableFile rt l w)"]
    by (simp add: DisableFile_fields(1))
  have b: "list_all (\<lambda>(r, c). \<not> is_EnableFile c) cs \<Longrightarrow>
      files (snd (snd (run cs (fst (DisableFile rt l w)) (snd (DisableFile rt l w))))) = files w \<and>
      logFile (fst (snd (run cs (fst (DisableFile rt l w)) (snd (DisableFile rt l w))))) = None"
    using run_without_sink [OF DisableFile_fields(1), of cs rt l w "snd (DisableFile rt l w)"]
    by (simp add: DisableFile_fields(2))
  from a b show ?thesis
    by (simp add: DisableFile_None emit_stdout_after_DisableFile)
qed

theorem DisableFile_witness:
  "list_all (\<lambda>(r, c). \<not> is_EnableFile c) cs0 \<and>
   files (snd (snd (run cs0 (fst (DisableFile rt0 l0 w0)) (snd (DisableFile rt0 l0 w0))))) =
     [''app.log'' \<mapsto> []] \<and>
   logFile (l0\<lparr>logFile := None\<rparr>) = None \<and>
   DisableFile rt0 (l0\<lparr>logFile := None\<rparr>) w0 = (l0\<lparr>logFile := None\<rparr>, w0)"
  using DisableFile_idempotent_and_silent [of rt0 rt0 l0 w0 cs0]
    DisableFile_idempotent_and_silent [of rt0 rt0 "l0\<lparr>logFile := None\<rparr>" w0 "[]"]
  by (simp add: cs0_def w0_simps)

text \<open>
  C9: \<^verbatim>\<open>WithTimeFormat\<close> with the empty string changes nothing of the writer, so the time
  format set before stays; with a layout that is not empty it replaces the time format
  and changes no other field.
\<close>

theorem WithTimeFormat_empty_or_replace:
  "WithTimeFormat [] l = l \<and>
   (layout \<noteq> [] \<longrightarrow> WithTimeFormat layout l = l\<lparr>timeFormat := layout\<rparr>)"
  by (simp add: WithTimeFormat_def)

theorem WithTimeFormat_witness:
  "WithTimeFormat [] l0 = l0 \<and> WithTimeFormat ''15:04'' l0 = l0\<lparr>timeFormat := ''15:04''\<rparr>"
  using WithTimeFormat_empty_or_replace [of l0 "''15:04''"] by simp

text \<open>
  C10: a call at or above the threshold with no argument after the template hands the
  template itself to \<^verbatim>\<open>log\<close>, whatever \<^verbatim>\<open>fmt.Sprintf\<close> would make of it, and the console
  line carries the template unchanged; with one argument or more the message is what
  \<^verbatim>\<open>fmt.Sprintf\<close> makes of the template and the arguments.
\<close>

theorem template_verbatim_without_arguments:
  assumes "severity S" and "level l \<le> S"
  shows "snd (snd (emit S rt msg [] l w)) = snd (log rt l S msg w) \<and>
         stdout (snd (snd (emit S rt msg [] l w))) =
           stdout w @ consoleLogger l S @ now rt (clock_reads w) ''15:04:05'' @ '' '' @ msg @ [nl] \<and>
         (v \<noteq> [] \<longrightarrow>
            snd (snd (emit S rt msg v l w)) = snd (log rt l S (Sprintf rt msg v) w) \<and>
            stdout (snd (snd (emit S rt msg v l w))) =
              stdout w @ consoleLogger l S @ now rt (clock_reads w) ''15:04:05'' @ '' '' @
              Sprintf rt msg v @ [nl])"
  using assms
  by (simp add: emit_log log_stdout fullMsg_def)

theorem template_verbatim_witness:
  "severity WARNING \<and> level l0 \<le> WARNING \<and>
   stdout (snd (snd (emit WARNING rt0 ''n=%d 100%%'' [] l0 w0))) =
     ''[WARNING] 12:00:00 n=%d 100%%'' @ [nl] \<and>
   [''7''] \<noteq> [] \<and>
   stdout (snd (snd (emit WARNING rt0 ''n=%d 100%%'' [''7''] l0 w0))) =
     ''[WARNING] 12:00:00 formatted'' @ [nl]"
proof -
  have h: "severity WARNING" "level l0 \<le> WARNING"
    by (simp_all add: l0_simps) (simp add: level_defs)
  from template_verbatim_without_arguments [OF h, of rt0 "''n=%d 100%%''" w0 "[''7'']"] h
  show ?thesis
    by (simp, elim conjE) (simp add: consoleLogger_def l0_simps w0_simps rt0_simps level_defs)
qed

end
